theory Spec2Isabelle
  imports
    Complex_Main
    "HOL-Library.Multiset"
    "HOL-Library.Char_ord"
    "HOL-Library.List_Lexorder"
begin

section \<open>RoadSafe Analytics: the data model of \<^verbatim>\<open>roadsafe_app.py\<close>\<close>

text \<open>
  The script loads a table of accident records, derives the columns
  \<^verbatim>\<open>Date\<close>, \<^verbatim>\<open>Hour\<close>, \<^verbatim>\<open>Visibility_Level\<close> and \<^verbatim>\<open>Road_Condition\<close>, drops the rows
  with a null in a required column, filters the table by the sidebar's selections and
  reduces the filtered table to the counts behind each chart.

  A cell of the parsed file is a Python value. Floats are the finite reals together with
  the two infinities and NaN; every comparison the script makes on a float is exact, so
  no rounding is involved.
\<close>

datatype pyfloat = Fin real | PosInf | NegInf | NaN

datatype cell = CNone | CBool bool | CInt int | CFloat pyfloat | CStr string

text \<open>
  A timestamp as \<^verbatim>\<open>pd.to_datetime\<close> leaves it, read through the accessors \<^verbatim>\<open>.dt.date\<close>
  (the day, as its ordinal number) and \<^verbatim>\<open>.dt.hour\<close>.
\<close>

record timestamp =
  dt_date :: nat
  dt_hour :: nat

text \<open>
  A row of the parsed file. The required columns are typed, \<open>None\<close> being the null
  (NaN, and NaT for \<^verbatim>\<open>Start_Time\<close> after \<^verbatim>\<open>errors='coerce'\<close>); the optional columns
  (\<^verbatim>\<open>Visibility(mi)\<close> and the infrastructure flags) are looked up by name.
\<close>

record csv_row =
  Start_Time :: "timestamp option"
  Start_Lat :: "real option"
  Start_Lng :: "real option"
  csv_Severity :: "int option"
  csv_State :: "string option"
  csv_Weather_Condition :: "string option"
  cells :: "string \<rightharpoonup> cell"

record csv_table =
  columns :: "string list"
  rows :: "csv_row list"

text \<open>
  A row of the table that \<^verbatim>\<open>load_data\<close> returns: after \<^verbatim>\<open>dropna\<close> the required
  columns hold no null. The frame's other columns are carried along unchanged and are read
  neither by the filter nor by the aggregations.
\<close>

record row =
  Date :: nat
  Hour :: nat
  State :: string
  Weather_Condition :: string
  Severity :: int
  Visibility_Level :: string
  Road_Condition :: string

datatype error = KeyError | ValueError

section \<open>Loading and deriving columns\<close>

text \<open>
  \<^verbatim>\<open>pd.to_numeric(col, errors='coerce')\<close> on one cell. The library's reading of a string
  as a number is the parameter \<open>parse\<close>, which gives NaN for a string that is no number.
\<close>

fun to_numeric :: "(string \<Rightarrow> pyfloat) \<Rightarrow> cell \<Rightarrow> pyfloat" where
  "to_numeric parse CNone = NaN"
| "to_numeric parse (CBool b) = Fin (if b then 1 else 0)"
| "to_numeric parse (CInt n) = Fin (of_int n)"
| "to_numeric parse (CFloat x) = x"
| "to_numeric parse (CStr s) = parse s"

fun notnull :: "pyfloat \<Rightarrow> bool" where
  "notnull NaN = False"
| "notnull _ = True"

text \<open>\<^verbatim>\<open>x >= 5\<close> on a float.\<close>

fun ge5 :: "pyfloat \<Rightarrow> bool" where
  "ge5 (Fin r) = (5 \<le> r)"
| "ge5 PosInf = True"
| "ge5 NegInf = False"
| "ge5 NaN = False"

text \<open>\<^verbatim>\<open>lambda x: 'Clear' if pd.notnull(x) and x >= 5 else 'Unclear'\<close>\<close>

definition visibility_lambda :: "pyfloat \<Rightarrow> string" where
  "visibility_lambda x = (if notnull x \<and> ge5 x then ''Clear'' else ''Unclear'')"

text \<open>\<^verbatim>\<open>row.get(name)\<close>: the cell, or \<^verbatim>\<open>None\<close> when the row has no such key.\<close>

definition row_get :: "csv_row \<Rightarrow> string \<Rightarrow> cell" where
  "row_get r name = (case cells r name of None \<Rightarrow> CNone | Some v \<Rightarrow> v)"

text \<open>
  \<^verbatim>\<open>v == True\<close> in Python: \<^verbatim>\<open>bool\<close> is a subtype of \<^verbatim>\<open>int\<close> with \<^verbatim>\<open>True == 1\<close>, and
  numbers compare by value, so \<^verbatim>\<open>1 == True\<close> and \<^verbatim>\<open>1.0 == True\<close> hold; a string and
  \<^verbatim>\<open>None\<close> are never equal to \<^verbatim>\<open>True\<close>.
\<close>

fun eq_True :: "cell \<Rightarrow> bool" where
  "eq_True CNone = False"
| "eq_True (CBool b) = b"
| "eq_True (CInt n) = (n = 1)"
| "eq_True (CFloat (Fin x)) = (x = 1)"
| "eq_True (CFloat _) = False"
| "eq_True (CStr s) = False"

text \<open>The nested function \<^verbatim>\<open>road_condition(row)\<close>; \<open>cols\<close> is \<^verbatim>\<open>df.columns\<close>.\<close>

definition road_condition :: "string list \<Rightarrow> csv_row \<Rightarrow> string" where
  "road_condition cols r =
    (if ''Junction'' \<in> set cols \<and> eq_True (row_get r ''Junction'') then ''Junction''
     else if ''Crossing'' \<in> set cols \<and> eq_True (row_get r ''Crossing'') then ''Crossing''
     else if ''Roundabout'' \<in> set cols \<and> eq_True (row_get r ''Roundabout'') then ''Roundabout''
     else if ''Bump'' \<in> set cols \<and> eq_True (row_get r ''Bump'') then ''Bump''
     else ''Straight Road'')"

text \<open>
  The column \<^verbatim>\<open>Visibility_Level\<close>: the lambda applied to the coerced column when the
  file has \<^verbatim>\<open>Visibility(mi)\<close>, the constant \<^verbatim>\<open>'Unknown'\<close> otherwise.
\<close>

definition Visibility_Level_column :: "(string \<Rightarrow> pyfloat) \<Rightarrow> csv_table \<Rightarrow> string list" where
  "Visibility_Level_column parse tbl =
    (if ''Visibility(mi)'' \<in> set (columns tbl)
     then map (\<lambda>r. visibility_lambda (to_numeric parse (row_get r ''Visibility(mi)''))) (rows tbl)
     else replicate (length (rows tbl)) ''Unknown'')"

text \<open>\<^verbatim>\<open>df.apply(road_condition, axis=1)\<close>\<close>

definition Road_Condition_column :: "csv_table \<Rightarrow> string list" where
  "Road_Condition_column tbl = map (road_condition (columns tbl)) (rows tbl)"

text \<open>
  \<^verbatim>\<open>dropna(subset=[Start_Lat, Start_Lng, Severity, State, Weather_Condition, Date])\<close> on
  one row with its two derived cells: the row is kept when none of the six is null.
  \<^verbatim>\<open>Date\<close> and \<^verbatim>\<open>Hour\<close> are null exactly when \<^verbatim>\<open>Start_Time\<close> is.
\<close>

definition dropna :: "csv_row \<times> string \<times> string \<Rightarrow> row option" where
  "dropna t =
    (case t of (r, vis, road) \<Rightarrow>
      (case (Start_Lat r, Start_Lng r, csv_Severity r, csv_State r, csv_Weather_Condition r, Start_Time r) of
         (Some lat, Some lng, Some sev, Some st, Some w, Some ts) \<Rightarrow>
           Some \<lparr>Date = dt_date ts, Hour = dt_hour ts, State = st, Weather_Condition = w,
                 Severity = sev, Visibility_Level = vis, Road_Condition = road\<rparr>
       | _ \<Rightarrow> None))"

definition required_columns :: "string list" where
  "required_columns =
    [''Start_Time'', ''Start_Lat'', ''Start_Lng'', ''Severity'', ''State'', ''Weather_Condition'']"

text \<open>
  \<^verbatim>\<open>load_data\<close>. Indexing a column the file lacks (\<^verbatim>\<open>df['Start_Time']\<close>, or a name of
  the \<^verbatim>\<open>dropna\<close> subset) raises \<^verbatim>\<open>KeyError\<close>.
\<close>

definition load_data :: "(string \<Rightarrow> pyfloat) \<Rightarrow> csv_table \<Rightarrow> error + row list" where
  "load_data parse tbl =
    (if \<not> set required_columns \<subseteq> set (columns tbl) then Inl KeyError
     else Inr (List.map_filter dropna
            (zip (rows tbl) (zip (Visibility_Level_column parse tbl) (Road_Condition_column tbl)))))"

section \<open>The sidebar's options and the filter\<close>

text \<open>
  \<^verbatim>\<open>Series.unique()\<close>: the distinct values in order of first appearance. The options
  of four controls are the sorted distinct values of a column of the loaded table; the
  \<^verbatim>\<open>dropna()\<close> in \<^verbatim>\<open>weather_options\<close> changes nothing, the loaded table having no
  null weather. The options of the visibility control are a literal list.
\<close>

fun unique :: "'a list \<Rightarrow> 'a list" where
  "unique [] = []"
| "unique (x # xs) = x # filter (\<lambda>y. y \<noteq> x) (unique xs)"

definition states :: "row list \<Rightarrow> string list" where
  "states df = sort (unique (map State df))"

definition weather_options :: "row list \<Rightarrow> string list" where
  "weather_options df = sort (unique (map Weather_Condition df))"

definition severity_levels :: "row list \<Rightarrow> int list" where
  "severity_levels df = sort (unique (map Severity df))"

definition visibility_options :: "string list" where
  "visibility_options = [''Clear'', ''Unclear'']"

definition road_options :: "row list \<Rightarrow> string list" where
  "road_options df = sort (unique (map Road_Condition df))"

text \<open>
  What \<^verbatim>\<open>st.sidebar.date_input\<close> hands back: one date, or a tuple of dates. The script
  passes a pair as the value, so the widget is in range mode and hands back a tuple of no,
  one or two dates; while only the first day of a range is picked, the tuple holds that
  one date.
\<close>

datatype date_input = SingleDate nat | DateTuple "nat list"

text \<open>\<^verbatim>\<open>col.isin(selected)\<close>, \<^verbatim>\<open>mask &= other\<close> and \<^verbatim>\<open>df[mask]\<close> on boolean columns.\<close>

definition isin :: "'a list \<Rightarrow> 'a list \<Rightarrow> bool list" where
  "isin col selected = map (\<lambda>v. v \<in> set selected) col"

definition mask_and :: "bool list \<Rightarrow> bool list \<Rightarrow> bool list" where
  "mask_and m other = map (\<lambda>(a, b). a \<and> b) (zip m other)"

definition select_mask :: "'a list \<Rightarrow> bool list \<Rightarrow> 'a list" where
  "select_mask df m = map fst (filter snd (zip df m))"

text \<open>
  The block under \<^verbatim>\<open>SMART FILTER LOGIC\<close>, with \<^verbatim>\<open>filtered_df = df.copy()\<close> as the value
  when the block is skipped. Unpacking a tuple that does not hold two dates raises
  \<^verbatim>\<open>ValueError\<close>.
\<close>

definition filtered_df ::
  "row list \<Rightarrow> string list \<Rightarrow> string list \<Rightarrow> int list \<Rightarrow> string list \<Rightarrow> string list
     \<Rightarrow> date_input \<Rightarrow> error + row list" where
  "filtered_df df selected_states selected_weather selected_severity selected_visibility
      selected_road selected_date_range =
    (case selected_date_range of
       SingleDate d \<Rightarrow> Inr df
     | DateTuple ds \<Rightarrow>
        (case ds of
           [start_date, end_date] \<Rightarrow>
             (let mask0 = map (\<lambda>r. start_date \<le> Date r \<and> Date r \<le> end_date) df;
                  mask1 = (if set selected_states \<noteq> set (states df)
                           then mask_and mask0 (isin (map State df) selected_states) else mask0);
                  mask2 = (if set selected_weather \<noteq> set (weather_options df)
                           then mask_and mask1 (isin (map Weather_Condition df) selected_weather)
                           else mask1);
                  mask3 = (if set selected_severity \<noteq> set (severity_levels df)
                           then mask_and mask2 (isin (map Severity df) selected_severity)
                           else mask2);
                  mask4 = (if set selected_visibility \<noteq> set visibility_options
                           then mask_and mask3 (isin (map Visibility_Level df) selected_visibility)
                           else mask3);
                  mask5 = (if set selected_road \<noteq> set (road_options df)
                           then mask_and mask4 (isin (map Road_Condition df) selected_road)
                           else mask4)
              in Inr (select_mask df mask5))
         | _ \<Rightarrow> Inl ValueError))"

section \<open>Aggregation views\<close>

text \<open>
  \<^verbatim>\<open>Series.value_counts()\<close>: one pair per distinct value with the number of its
  occurrences, by descending count; values of equal count stay in order of first
  appearance. \<^verbatim>\<open>sort_index()\<close> orders the pairs by value.
\<close>

definition value_counts :: "'a list \<Rightarrow> ('a \<times> nat) list" where
  "value_counts col =
    sort_key (\<lambda>p. - int (snd p)) (map (\<lambda>v. (v, count_list col v)) (unique col))"

definition sort_index :: "('a::linorder \<times> nat) list \<Rightarrow> ('a \<times> nat) list" where
  "sort_index vc = sort_key fst vc"

definition hourly_counts :: "row list \<Rightarrow> (nat \<times> nat) list" where
  "hourly_counts df = sort_index (value_counts (map Hour df))"

definition weather_counts :: "row list \<Rightarrow> (string \<times> nat) list" where
  "weather_counts df = take 5 (value_counts (map Weather_Condition df))"

text \<open>
  The four KPI metrics: \<^verbatim>\<open>len(filtered_df)\<close> and \<^verbatim>\<open>len(filtered_df[filtered_df['Severity']==k])\<close>
  for \<open>k\<close> = 4, 3, 2.
\<close>

definition severity_eq_count :: "row list \<Rightarrow> int \<Rightarrow> nat" where
  "severity_eq_count df k = length (select_mask df (map (\<lambda>s. s = k) (map Severity df)))"

record kpi =
  total :: nat
  fatal :: nat
  severe :: nat
  slight :: nat

definition kpis :: "row list \<Rightarrow> kpi" where
  "kpis df = \<lparr>total = length df, fatal = severity_eq_count df 4,
              severe = severity_eq_count df 3, slight = severity_eq_count df 2\<rparr>"

section \<open>Derived notions used to state the properties\<close>

text \<open>
  What one guarded step \<^verbatim>\<open>if set(selected) != set(options): mask &= col.isin(selected)\<close>
  asks of a row whose value in that column is \<open>v\<close>.
\<close>

definition constraint :: "'a list \<Rightarrow> 'a list \<Rightarrow> 'a \<Rightarrow> bool" where
  "constraint options selected v = (set selected \<noteq> set options \<longrightarrow> v \<in> set selected)"

text \<open>
  The reading of the specification for a single-date selection: the date filter is left
  out and the table is filtered by the five categorical dimensions only.
\<close>

definition spec_categorical_only ::
  "row list \<Rightarrow> string list \<Rightarrow> string list \<Rightarrow> int list \<Rightarrow> string list \<Rightarrow> string list
     \<Rightarrow> row list" where
  "spec_categorical_only df ss sw sv svis sr =
     filter (\<lambda>r. constraint (states df) ss (State r)
         \<and> constraint (weather_options df) sw (Weather_Condition r)
         \<and> constraint (severity_levels df) sv (Severity r)
         \<and> constraint visibility_options svis (Visibility_Level r)
         \<and> constraint (road_options df) sr (Road_Condition r)) df"

text \<open>The rows that \<^verbatim>\<open>dropna\<close> keeps.\<close>

definition complete :: "csv_row \<Rightarrow> bool" where
  "complete r = (Start_Lat r \<noteq> None \<and> Start_Lng r \<noteq> None \<and> csv_Severity r \<noteq> None
      \<and> csv_State r \<noteq> None \<and> csv_Weather_Condition r \<noteq> None \<and> Start_Time r \<noteq> None)"

text \<open>
  The reading of the specification for the infrastructure flags: a flag is set only when
  its cell is the boolean true.
\<close>

definition spec_flag_set :: "cell \<Rightarrow> bool" where
  "spec_flag_set v = (v = CBool True)"

definition spec_road_condition :: "string list \<Rightarrow> csv_row \<Rightarrow> string" where
  "spec_road_condition cols r =
    (case find (\<lambda>f. f \<in> set cols \<and> spec_flag_set (row_get r f))
            [''Junction'', ''Crossing'', ''Roundabout'', ''Bump''] of
       Some f \<Rightarrow> f | None \<Rightarrow> ''Straight Road'')"

section \<open>Example tables\<close>

definition example_df :: "row list" where
  "example_df =
    [\<lparr>Date = 3, Hour = 0, State = ''CA'', Weather_Condition = ''Rain'', Severity = 4,
      Visibility_Level = ''Clear'', Road_Condition = ''Junction''\<rparr>,
     \<lparr>Date = 4, Hour = 5, State = ''NY'', Weather_Condition = ''Fair'', Severity = 2,
      Visibility_Level = ''Unclear'', Road_Condition = ''Straight Road''\<rparr>,
     \<lparr>Date = 9, Hour = 5, State = ''CA'', Weather_Condition = ''Fair'', Severity = 3,
      Visibility_Level = ''Clear'', Road_Condition = ''Straight Road''\<rparr>]"

definition example_csv_row :: "(string \<rightharpoonup> cell) \<Rightarrow> csv_row" where
  "example_csv_row cs =
    \<lparr>Start_Time = Some \<lparr>dt_date = 3, dt_hour = 7\<rparr>, Start_Lat = Some 34, Start_Lng = Some (- 118),
     csv_Severity = Some 2, csv_State = Some ''CA'', csv_Weather_Condition = Some ''Fair'',
     cells = cs\<rparr>"

definition example_table :: csv_table where
  "example_table =
    \<lparr>columns = required_columns @ [''Visibility(mi)'', ''Junction'', ''Crossing''],
     rows =
      [example_csv_row [''Visibility(mi)'' \<mapsto> CFloat (Fin 10), ''Junction'' \<mapsto> CBool True,
                        ''Crossing'' \<mapsto> CBool True],
       example_csv_row [''Visibility(mi)'' \<mapsto> CFloat NaN, ''Junction'' \<mapsto> CBool False,
                        ''Crossing'' \<mapsto> CStr ''true''],
       example_csv_row [''Visibility(mi)'' \<mapsto> CStr ''n/a'', ''Junction'' \<mapsto> CFloat (Fin 1),
                        ''Crossing'' \<mapsto> CBool False]]\<rparr>"

definition example_visibility_table :: csv_table where
  "example_visibility_table =
    \<lparr>columns = required_columns @ [''Visibility(mi)''],
     rows =
      [example_csv_row [''Visibility(mi)'' \<mapsto> CFloat (Fin 10)],
       example_csv_row [''Visibility(mi)'' \<mapsto> CFloat (Fin 5)],
       example_csv_row [''Visibility(mi)'' \<mapsto> CFloat (Fin (49 / 10))],
       example_csv_row [''Visibility(mi)'' \<mapsto> CInt 4],
       example_csv_row [''Visibility(mi)'' \<mapsto> CInt 5],
       example_csv_row [''Visibility(mi)'' \<mapsto> CFloat NaN],
       example_csv_row [''Visibility(mi)'' \<mapsto> CStr ''n/a'']]\<rparr>"

definition example_table_no_visibility :: csv_table where
  "example_table_no_visibility =
    \<lparr>columns = required_columns @ [''Junction''],
     rows = [example_csv_row [''Junction'' \<mapsto> CBool True]]\<rparr>"

definition example_loaded :: "string \<Rightarrow> string \<Rightarrow> row" where
  "example_loaded vis road =
    \<lparr>Date = 3, Hour = 7, State = ''CA'', Weather_Condition = ''Fair'', Severity = 2,
     Visibility_Level = vis, Road_Condition = road\<rparr>"

definition severity_rows :: "int list \<Rightarrow> row list" where
  "severity_rows sevs =
    map (\<lambda>k. \<lparr>Date = 3, Hour = 7, State = ''CA'', Weather_Condition = ''Fair'', Severity = k,
              Visibility_Level = ''Clear'', Road_Condition = ''Straight Road''\<rparr>) sevs"

definition hour_rows :: "nat list \<Rightarrow> row list" where
  "hour_rows hs =
    map (\<lambda>h. \<lparr>Date = 3, Hour = h, State = ''CA'', Weather_Condition = ''Fair'', Severity = 2,
              Visibility_Level = ''Clear'', Road_Condition = ''Straight Road''\<rparr>) hs"

definition weather_rows :: "(string \<times> nat) list \<Rightarrow> row list" where
  "weather_rows freqs =
    concat (map (\<lambda>(w, n). replicate n
      \<lparr>Date = 3, Hour = 7, State = ''CA'', Weather_Condition = w, Severity = 2,
       Visibility_Level = ''Clear'', Road_Condition = ''Straight Road''\<rparr>) freqs)"

section \<open>Helper lemmas\<close>

subsection \<open>Boolean masks\<close>

lemma select_mask_map: "select_mask df (map P df) = filter P df"
  by (induction df) (simp_all add: select_mask_def)

lemma mask_and_map: "mask_and (map P df) (map Q df) = map (\<lambda>r. P r \<and> Q r) df"
  by (induction df) (simp_all add: mask_and_def)

lemma isin_map: "isin (map f df) sel = map (\<lambda>r. f r \<in> set sel) df"
  by (simp add: isin_def)

lemma guard_step:
  "(if c then mask_and (map P df) (isin (map f df) sel) else map P df)
     = map (\<lambda>r. P r \<and> (c \<longrightarrow> f r \<in> set sel)) df"
  by (simp add: isin_map mask_and_map)

subsection \<open>The options of the controls\<close>

lemma set_unique [simp]: "set (unique xs) = set xs"
  by (induction xs) auto

lemma distinct_unique [simp]: "distinct (unique xs)"
  by (induction xs) auto

lemma universes:
  "set (states df) = State ` set df"
  "set (weather_options df) = Weather_Condition ` set df"
  "set (severity_levels df) = Severity ` set df"
  "set (road_options df) = Road_Condition ` set df"
  "set visibility_options = {''Clear'', ''Unclear''}"
  by (simp_all add: states_def weather_options_def severity_levels_def road_options_def
      visibility_options_def)

lemma only_Clear_active: "set [''Clear''] \<noteq> set visibility_options"
proof
  assume "set [''Clear''] = set visibility_options"
  then have "''Unclear'' \<in> set [''Clear'']" by (simp add: visibility_options_def)
  then show False by simp
qed

lemma only_Unclear_active: "set [''Unclear''] \<noteq> set visibility_options"
proof
  assume "set [''Unclear''] = set visibility_options"
  then have "''Clear'' \<in> set [''Unclear'']" by (simp add: visibility_options_def)
  then show False by simp
qed

lemma Unknown_not_option: "''Unknown'' \<notin> set visibility_options"
  by (simp add: visibility_options_def)

subsection \<open>The filter on a pair of dates, on a lone date and on any other tuple\<close>

lemma filtered_df_pair:
  "filtered_df df ss sw sv svis sr (DateTuple [s, e]) =
     Inr (filter (\<lambda>r. s \<le> Date r \<and> Date r \<le> e
            \<and> (set ss \<noteq> set (states df) \<longrightarrow> State r \<in> set ss)
            \<and> (set sw \<noteq> set (weather_options df) \<longrightarrow> Weather_Condition r \<in> set sw)
            \<and> (set sv \<noteq> set (severity_levels df) \<longrightarrow> Severity r \<in> set sv)
            \<and> (set svis \<noteq> set visibility_options \<longrightarrow> Visibility_Level r \<in> set svis)
            \<and> (set sr \<noteq> set (road_options df) \<longrightarrow> Road_Condition r \<in> set sr)) df)"
  unfolding filtered_df_def Let_def
  by (simp only: guard_step select_mask_map date_input.case list.case conj_assoc)

lemma filtered_df_range:
  "filtered_df df ss sw sv svis sr (DateTuple [s, e]) =
     Inr (filter (\<lambda>r. s \<le> Date r \<and> Date r \<le> e
            \<and> constraint (states df) ss (State r)
            \<and> constraint (weather_options df) sw (Weather_Condition r)
            \<and> constraint (severity_levels df) sv (Severity r)
            \<and> constraint visibility_options svis (Visibility_Level r)
            \<and> constraint (road_options df) sr (Road_Condition r)) df)"
  unfolding filtered_df_pair constraint_def ..

lemma filtered_df_single: "filtered_df df ss sw sv svis sr (SingleDate d) = Inr df"
  by (simp add: filtered_df_def)

text \<open>
  A tuple of one date passes the \<^verbatim>\<open>isinstance\<close> test and fails at the unpacking
  \<^verbatim>\<open>start_date, end_date = selected_date_range\<close>.
\<close>

lemma filtered_df_one_date: "filtered_df df ss sw sv svis sr (DateTuple [d]) = Inl ValueError"
  by (simp add: filtered_df_def)

lemma constraint_empty: "opts \<noteq> [] \<Longrightarrow> \<not> constraint opts [] v"
  by (simp add: constraint_def)

lemma unknown_excluded:
  assumes "set svis \<subset> set visibility_options"
    and "filtered_df df ss sw sv svis sr (DateTuple [s, e]) = Inr out"
    and "r \<in> set out"
  shows "Visibility_Level r \<noteq> ''Unknown''"
proof -
  from assms(1) have ne: "set svis \<noteq> set visibility_options"
    and sub: "set svis \<subseteq> set visibility_options" by blast+
  from assms(2,3) have "constraint visibility_options svis (Visibility_Level r)"
    unfolding filtered_df_range by auto
  with ne have "Visibility_Level r \<in> set svis" by (simp add: constraint_def)
  with sub have "Visibility_Level r \<in> set visibility_options" by blast
  with Unknown_not_option show ?thesis by metis
qed

subsection \<open>The loaded table, row by row\<close>

lemma dropna_Some:
  "dropna (r, vis, road) = Some x \<longleftrightarrow>
     complete r \<and> x = \<lparr>Date = dt_date (the (Start_Time r)), Hour = dt_hour (the (Start_Time r)),
        State = the (csv_State r), Weather_Condition = the (csv_Weather_Condition r),
        Severity = the (csv_Severity r), Visibility_Level = vis, Road_Condition = road\<rparr>"
  by (auto simp: dropna_def complete_def split: option.splits)

lemma dropna_None: "dropna (r, vis, road) = None \<longleftrightarrow> \<not> complete r"
  by (auto simp: dropna_def complete_def split: option.splits)

lemma map_filter_dropna:
  "List.map_filter dropna (map (\<lambda>r. (r, f r, g r)) xs) =
     map (\<lambda>r. \<lparr>Date = dt_date (the (Start_Time r)), Hour = dt_hour (the (Start_Time r)),
        State = the (csv_State r), Weather_Condition = the (csv_Weather_Condition r),
        Severity = the (csv_Severity r), Visibility_Level = f r, Road_Condition = g r\<rparr>)
      (filter complete xs)"
proof (induction xs)
  case Nil
  show ?case by simp
next
  case (Cons x xs)
  show ?case
  proof (cases "complete x")
    case True
    then have "dropna (x, f x, g x) =
      Some \<lparr>Date = dt_date (the (Start_Time x)), Hour = dt_hour (the (Start_Time x)),
        State = the (csv_State x), Weather_Condition = the (csv_Weather_Condition x),
        Severity = the (csv_Severity x), Visibility_Level = f x, Road_Condition = g x\<rparr>"
      by (simp add: dropna_Some)
    with True Cons show ?thesis by simp
  next
    case False
    then have "dropna (x, f x, g x) = None" by (simp add: dropna_None)
    with False Cons show ?thesis by simp
  qed
qed

lemma zip_columns: "zip xs (zip (map f xs) (map g xs)) = map (\<lambda>x. (x, f x, g x)) xs"
  by (induction xs) simp_all

lemma load_data_rows:
  assumes "load_data parse tbl = Inr df"
  shows "df = map (\<lambda>r. \<lparr>Date = dt_date (the (Start_Time r)), Hour = dt_hour (the (Start_Time r)),
        State = the (csv_State r), Weather_Condition = the (csv_Weather_Condition r),
        Severity = the (csv_Severity r),
        Visibility_Level =
          (if ''Visibility(mi)'' \<in> set (columns tbl)
           then visibility_lambda (to_numeric parse (row_get r ''Visibility(mi)''))
           else ''Unknown''),
        Road_Condition = road_condition (columns tbl) r\<rparr>)
      (filter complete (rows tbl))"
proof -
  have vis: "Visibility_Level_column parse tbl =
      map (\<lambda>r. if ''Visibility(mi)'' \<in> set (columns tbl)
           then visibility_lambda (to_numeric parse (row_get r ''Visibility(mi)''))
           else ''Unknown'') (rows tbl)"
    by (simp add: Visibility_Level_column_def map_replicate_const)
  have "df = List.map_filter dropna
            (zip (rows tbl) (zip (Visibility_Level_column parse tbl) (Road_Condition_column tbl)))"
    using assms by (simp add: load_data_def split: if_splits)
  then show ?thesis
    unfolding vis Road_Condition_column_def zip_columns
    by (simp only: map_filter_dropna)
qed

lemma visibility_lambda_not_Unknown: "visibility_lambda x \<noteq> ''Unknown''"
  by (simp add: visibility_lambda_def)

lemma absent_visibility_all_Unknown:
  assumes "''Visibility(mi)'' \<notin> set (columns tbl)" and "load_data parse tbl = Inr df"
    and "r \<in> set df"
  shows "Visibility_Level r = ''Unknown''"
  using assms(3) by (subst (asm) load_data_rows [OF assms(2)]) (auto simp: assms(1))

lemma load_example_visibility_table:
  "load_data (\<lambda>s. NaN) example_visibility_table =
     Inr (map (\<lambda>v. example_loaded v ''Straight Road'')
       [''Clear'', ''Clear'', ''Unclear'', ''Unclear'', ''Clear'', ''Unclear'', ''Unclear''])"
  by (simp add: load_data_def required_columns_def example_visibility_table_def
      Visibility_Level_column_def Road_Condition_column_def example_csv_row_def dropna_def
      row_get_def visibility_lambda_def road_condition_def example_loaded_def)

lemma load_example_table_no_visibility:
  "load_data (\<lambda>s. NaN) example_table_no_visibility = Inr [example_loaded ''Unknown'' ''Junction'']"
  by (simp add: load_data_def required_columns_def example_table_no_visibility_def
      Visibility_Level_column_def Road_Condition_column_def example_csv_row_def dropna_def
      row_get_def road_condition_def example_loaded_def)

subsection \<open>Counting with a mask\<close>

lemma severity_eq_count_filter:
  "severity_eq_count df k = length (filter (\<lambda>r. Severity r = k) df)"
  by (simp add: severity_eq_count_def select_mask_map comp_def)

subsection \<open>Value counts\<close>

lemma count_rows: "length (filter (\<lambda>r. f r = v) df) = count_list (map f df) v"
  by (induction df) simp_all

lemma mset_unique: "mset (unique xs) = mset_set (set xs)"
  using mset_set_set [of "unique xs"] by simp

lemma mset_value_counts:
  "mset (value_counts col) = image_mset (\<lambda>v. (v, count_list col v)) (mset_set (set col))"
  by (simp add: value_counts_def mset_unique)

lemma set_value_counts: "set (value_counts col) = (\<lambda>v. (v, count_list col v)) ` set col"
  by (simp add: value_counts_def)

lemma map_fst_value_counts: "mset (map fst (value_counts col)) = mset_set (set col)"
proof -
  have "mset (map fst (value_counts col)) = image_mset fst (mset (value_counts col))" by simp
  also have "\<dots> = mset_set (set col)"
    unfolding mset_value_counts by (simp add: image_mset.compositionality comp_def)
  finally show ?thesis .
qed

lemma distinct_map_fst_value_counts: "distinct (map fst (value_counts col))"
proof -
  have "mset (map fst (value_counts col)) = mset (unique col)"
    by (simp only: map_fst_value_counts mset_unique)
  then show ?thesis using distinct_unique mset_eq_imp_distinct_iff by blast
qed

lemma length_value_counts: "length (value_counts col) = card (set col)"
  by (simp add: value_counts_def distinct_card [symmetric])

lemma sorted_value_counts: "sorted_wrt (\<lambda>p q. snd q \<le> snd p) (value_counts col)"
proof -
  have "sorted (map (\<lambda>p. - int (snd p)) (value_counts col))"
    unfolding value_counts_def by (rule sorted_sort_key)
  then show ?thesis by (simp add: sorted_map)
qed

lemma mset_sorted_list_of_set: "finite A \<Longrightarrow> mset (sorted_list_of_set A) = mset_set A"
  using mset_set_set [of "sorted_list_of_set A"] by simp

lemma hourly_counts_eq:
  "hourly_counts df =
     map (\<lambda>h. (h, count_list (map Hour df) h)) (sorted_list_of_set (Hour ` set df))"
  unfolding hourly_counts_def sort_index_def
proof (rule sort_key_inj_key_eq)
  show "mset (value_counts (map Hour df)) =
      mset (map (\<lambda>h. (h, count_list (map Hour df) h)) (sorted_list_of_set (Hour ` set df)))"
    by (simp add: mset_value_counts mset_sorted_list_of_set)
  show "inj_on fst (set (value_counts (map Hour df)))"
    by (auto simp: set_value_counts inj_on_def)
  show "sorted (map fst (map (\<lambda>h. (h, count_list (map Hour df) h))
      (sorted_list_of_set (Hour ` set df))))"
    by (simp add: comp_def)
qed

lemma count_list_pos: "x \<in> set xs \<Longrightarrow> 0 < count_list xs x"
  using count_list_0_iff [of xs x] by simp

lemma value_counts_frequencies:
  assumes d: "distinct ws" and s: "set col = set ws"
    and c: "map (count_list col) ws = cs"
    and desc: "sorted (map (\<lambda>n. - int n) cs)" and dc: "distinct cs"
  shows "value_counts col = zip ws cs"
  unfolding value_counts_def
proof (rule sort_key_inj_key_eq)
  have len: "length ws = length cs" using c by auto
  have z: "map (\<lambda>v. (v, count_list col v)) ws = zip ws cs"
    unfolding c [symmetric] by (simp add: zip_map2 zip_same_conv_map)
  have "mset (unique col) = mset ws"
    using d s by (simp add: set_eq_iff_mset_eq_distinct [symmetric])
  then have "mset (map (\<lambda>v. (v, count_list col v)) (unique col))
      = mset (map (\<lambda>v. (v, count_list col v)) ws)"
    by simp
  then show m: "mset (map (\<lambda>v. (v, count_list col v)) (unique col)) = mset (zip ws cs)"
    unfolding z .
  have "distinct (map snd (zip ws cs))" using len dc by simp
  then have "inj_on snd (set (zip ws cs))" by (simp add: distinct_map)
  then have "inj_on (\<lambda>p. - int (snd p)) (set (zip ws cs))"
    by (auto simp: inj_on_def)
  then show "inj_on (\<lambda>p. - int (snd p)) (set (map (\<lambda>v. (v, count_list col v)) (unique col)))"
    using mset_eq_setD [OF m] by simp
  have "map (\<lambda>p. - int (snd p)) (zip ws cs) = map (\<lambda>n. - int n) (map snd (zip ws cs))"
    by (simp add: comp_def)
  also have "\<dots> = map (\<lambda>n. - int n) cs" using len by simp
  finally show "sorted (map (\<lambda>p. - int (snd p)) (zip ws cs))" using desc by simp
qed

lemma top_of_sorted:
  assumes "sorted_wrt R xs" and "x \<in> set (take n xs)" and "y \<in> set xs" and "y \<notin> set (take n xs)"
  shows "R x y"
proof -
  have "xs = take n xs @ drop n xs" by simp
  with assms(1) have "sorted_wrt R (take n xs @ drop n xs)" by simp
  then have a: "\<forall>a \<in> set (take n xs). \<forall>b \<in> set (drop n xs). R a b"
    unfolding sorted_wrt_append by blast
  from assms(3) have "y \<in> set (take n xs) \<union> set (drop n xs)"
    by (metis append_take_drop_id set_append)
  with assms(4) have "y \<in> set (drop n xs)" by blast
  with a assms(2) show ?thesis by blast
qed

subsection \<open>The example table of weather frequencies\<close>

lemma weather_rows_simps:
  "weather_rows [] = []"
  "weather_rows ((w, n) # fs) =
     replicate n \<lparr>Date = 3, Hour = 7, State = ''CA'', Weather_Condition = w, Severity = 2,
       Visibility_Level = ''Clear'', Road_Condition = ''Straight Road''\<rparr> @ weather_rows fs"
  by (simp_all add: weather_rows_def)

lemma count_weather_rows:
  "length (filter (\<lambda>r. Weather_Condition r = v) (weather_rows fs))
     = sum_list (map snd (filter (\<lambda>p. fst p = v) fs))"
proof (induction fs)
  case Nil
  show ?case by (simp add: weather_rows_simps)
next
  case (Cons p fs)
  obtain w n where p: "p = (w, n)" by (cases p)
  show ?case unfolding p using Cons by (simp add: weather_rows_simps)
qed

lemma set_weather_rows:
  "Weather_Condition ` set (weather_rows fs) = fst ` set (filter (\<lambda>p. 0 < snd p) fs)"
proof (induction fs)
  case Nil
  show ?case by (simp add: weather_rows_simps)
next
  case (Cons p fs)
  obtain w n where p: "p = (w, n)" by (cases p)
  show ?case unfolding p using Cons by (simp add: weather_rows_simps image_Un)
qed

section \<open>Properties of the filter\<close>

text \<open>
  Claim C1. Given a date range \<open>[start_date, end_date]\<close> and five selections, each made
  among the options of its control, the filter returns exactly the rows whose date lies in
  the range, both ends included, and whose value, in every dimension where the selection
  is a strict subset of the universe, is among the selected values; a dimension whose
  selection is the whole universe puts no condition on the row. The universe is the set
  of values of the column in the unfiltered table for state, weather, severity and road
  condition, and the fixed pair Clear, Unclear for visibility.
\<close>

theorem filter_engine_exact:
  assumes "set ss \<subseteq> State ` set df" and "set sw \<subseteq> Weather_Condition ` set df"
    and "set sv \<subseteq> Severity ` set df" and "set svis \<subseteq> {''Clear'', ''Unclear''}"
    and "set sr \<subseteq> Road_Condition ` set df"
  shows "filtered_df df ss sw sv svis sr (DateTuple [start_date, end_date]) =
     Inr (filter (\<lambda>r. start_date \<le> Date r \<and> Date r \<le> end_date
            \<and> (set ss \<subset> State ` set df \<longrightarrow> State r \<in> set ss)
            \<and> (set sw \<subset> Weather_Condition ` set df \<longrightarrow> Weather_Condition r \<in> set sw)
            \<and> (set sv \<subset> Severity ` set df \<longrightarrow> Severity r \<in> set sv)
            \<and> (set svis \<subset> {''Clear'', ''Unclear''} \<longrightarrow> Visibility_Level r \<in> set svis)
            \<and> (set sr \<subset> Road_Condition ` set df \<longrightarrow> Road_Condition r \<in> set sr)) df)"
  using assms unfolding filtered_df_pair universes psubset_eq by simp

theorem filter_engine_exact_witness:
  "set [''CA''] \<subseteq> State ` set example_df
   \<and> set [''Fair'', ''Rain''] \<subseteq> Weather_Condition ` set example_df
   \<and> set [2, 3, 4] \<subseteq> Severity ` set example_df
   \<and> set [''Clear''] \<subseteq> {''Clear'', ''Unclear''}
   \<and> set [''Junction'', ''Straight Road''] \<subseteq> Road_Condition ` set example_df
   \<and> filtered_df example_df [''CA''] [''Fair'', ''Rain''] [2, 3, 4] [''Clear'']
        [''Junction'', ''Straight Road''] (DateTuple [2, 5]) = Inr [example_df ! 0]"
proof -
  have h1: "set [''CA''] \<subseteq> State ` set example_df"
   and h2: "set [''Fair'', ''Rain''] \<subseteq> Weather_Condition ` set example_df"
   and h3: "set [2, 3, 4] \<subseteq> Severity ` set example_df"
   and h4: "set [''Clear''] \<subseteq> {''Clear'', ''Unclear''}"
   and h5: "set [''Junction'', ''Straight Road''] \<subseteq> Road_Condition ` set example_df"
    by (simp_all add: example_df_def)
  have p: "set [''CA''] \<subset> State ` set example_df"
    "\<not> set [''Fair'', ''Rain''] \<subset> Weather_Condition ` set example_df"
    "\<not> set [2, 3, 4] \<subset> Severity ` set example_df"
    "set [''Clear''] \<subset> {''Clear'', ''Unclear''}"
    "\<not> set [''Junction'', ''Straight Road''] \<subset> Road_Condition ` set example_df"
    by (auto simp: example_df_def)
  have "filtered_df example_df [''CA''] [''Fair'', ''Rain''] [2, 3, 4] [''Clear'']
        [''Junction'', ''Straight Road''] (DateTuple [2, 5]) = Inr [example_df ! 0]"
    unfolding filter_engine_exact [OF h1 h2 h3 h4 h5, of 2 5]
    by (simp only: p) (simp add: example_df_def)
  with h1 h2 h3 h4 h5 show ?thesis by blast
qed

text \<open>
  Claim C2, as amended. A pair of dates whose start and end are the same day \<open>d\<close> is
  filtered like any other range: the result is exactly the rows dated \<open>d\<close> that meet
  every active categorical constraint. The date filter is not left out.
\<close>

theorem same_day_pair_is_a_range:
  "filtered_df df ss sw sv svis sr (DateTuple [d, d]) =
       Inr (filter (\<lambda>r. Date r = d
            \<and> constraint (states df) ss (State r)
            \<and> constraint (weather_options df) sw (Weather_Condition r)
            \<and> constraint (severity_levels df) sv (Severity r)
            \<and> constraint visibility_options svis (Visibility_Level r)
            \<and> constraint (road_options df) sr (Road_Condition r)) df)"
proof -
  have "(d \<le> Date r \<and> Date r \<le> d \<and> P) = (Date r = d \<and> P)" for r :: row and P
    by auto
  then show ?thesis unfolding filtered_df_range by simp
qed

theorem same_day_pair_is_a_range_witness:
  "filtered_df example_df [''CA''] [''Fair'', ''Rain''] [2, 3, 4] [''Clear'', ''Unclear'']
        [''Junction'', ''Straight Road''] (DateTuple [9, 9]) = Inr [example_df ! 2]"
  using same_day_pair_is_a_range
      [of example_df "[''CA'']" "[''Fair'', ''Rain'']" "[2, 3, 4]" "[''Clear'', ''Unclear'']"
          "[''Junction'', ''Straight Road'']" 9]
  by (simp add: constraint_def universes example_df_def)

text \<open>
  Claim C2 as the specification states it fails on the three-row example table: with
  every option of every control selected, the pair (3, 3) keeps the single row dated 3,
  where leaving the date filter out keeps all three rows.
\<close>

theorem same_day_pair_counterexample:
  "filtered_df example_df [''CA'', ''NY''] [''Fair'', ''Rain''] [2, 3, 4] [''Clear'', ''Unclear'']
      [''Junction'', ''Straight Road''] (DateTuple [3, 3]) = Inr [example_df ! 0]
   \<and> spec_categorical_only example_df [''CA'', ''NY''] [''Fair'', ''Rain''] [2, 3, 4]
        [''Clear'', ''Unclear''] [''Junction'', ''Straight Road''] = example_df
   \<and> filtered_df example_df [''CA'', ''NY''] [''Fair'', ''Rain''] [2, 3, 4] [''Clear'', ''Unclear'']
      [''Junction'', ''Straight Road''] (DateTuple [3, 3])
     \<noteq> Inr (spec_categorical_only example_df [''CA'', ''NY''] [''Fair'', ''Rain''] [2, 3, 4]
            [''Clear'', ''Unclear''] [''Junction'', ''Straight Road''])"
proof -
  have c: "filtered_df example_df [''CA'', ''NY''] [''Fair'', ''Rain''] [2, 3, 4]
      [''Clear'', ''Unclear''] [''Junction'', ''Straight Road''] (DateTuple [3, 3])
      = Inr [example_df ! 0]"
    unfolding filtered_df_range by (simp add: constraint_def universes example_df_def)
  have d: "spec_categorical_only example_df [''CA'', ''NY''] [''Fair'', ''Rain''] [2, 3, 4]
            [''Clear'', ''Unclear''] [''Junction'', ''Straight Road''] = example_df"
    by (simp add: spec_categorical_only_def constraint_def universes example_df_def)
  have e: "(Inr [example_df ! 0] :: error + row list) \<noteq> Inr example_df"
    by (simp add: example_df_def)
  show ?thesis unfolding c d using e by simp
qed

text \<open>
  Claim C5. In a filter over a date range, a dimension whose selection is the whole
  universe (every value the column takes in the unfiltered table) leaves the result as it
  is with that dimension's constraint left out; so the rows, and their number, are the
  same as when that dimension is not filtered at all. For visibility this holds both for
  the values observed in the table and for the control's own two options.
\<close>

theorem full_selection_no_constraint:
  "(set ss = State ` set df \<longrightarrow>
      filtered_df df ss sw sv svis sr (DateTuple [s, e]) =
        Inr (filter (\<lambda>r. s \<le> Date r \<and> Date r \<le> e
            \<and> constraint (weather_options df) sw (Weather_Condition r)
            \<and> constraint (severity_levels df) sv (Severity r)
            \<and> constraint visibility_options svis (Visibility_Level r)
            \<and> constraint (road_options df) sr (Road_Condition r)) df))
   \<and> (set sw = Weather_Condition ` set df \<longrightarrow>
      filtered_df df ss sw sv svis sr (DateTuple [s, e]) =
        Inr (filter (\<lambda>r. s \<le> Date r \<and> Date r \<le> e
            \<and> constraint (states df) ss (State r)
            \<and> constraint (severity_levels df) sv (Severity r)
            \<and> constraint visibility_options svis (Visibility_Level r)
            \<and> constraint (road_options df) sr (Road_Condition r)) df))
   \<and> (set sv = Severity ` set df \<longrightarrow>
      filtered_df df ss sw sv svis sr (DateTuple [s, e]) =
        Inr (filter (\<lambda>r. s \<le> Date r \<and> Date r \<le> e
            \<and> constraint (states df) ss (State r)
            \<and> constraint (weather_options df) sw (Weather_Condition r)
            \<and> constraint visibility_options svis (Visibility_Level r)
            \<and> constraint (road_options df) sr (Road_Condition r)) df))
   \<and> (set svis = Visibility_Level ` set df \<or> set svis = set visibility_options \<longrightarrow>
      filtered_df df ss sw sv svis sr (DateTuple [s, e]) =
        Inr (filter (\<lambda>r. s \<le> Date r \<and> Date r \<le> e
            \<and> constraint (states df) ss (State r)
            \<and> constraint (weather_options df) sw (Weather_Condition r)
            \<and> constraint (severity_levels df) sv (Severity r)
            \<and> constraint (road_options df) sr (Road_Condition r)) df))
   \<and> (set sr = Road_Condition ` set df \<longrightarrow>
      filtered_df df ss sw sv svis sr (DateTuple [s, e]) =
        Inr (filter (\<lambda>r. s \<le> Date r \<and> Date r \<le> e
            \<and> constraint (states df) ss (State r)
            \<and> constraint (weather_options df) sw (Weather_Condition r)
            \<and> constraint (severity_levels df) sv (Severity r)
            \<and> constraint visibility_options svis (Visibility_Level r)) df))"
proof -
  have same: "Inr (filter P df) = (Inr (filter Q df) :: error + row list)"
    if "\<And>r. r \<in> set df \<Longrightarrow> P r = Q r" for P Q
    using that by (simp cong: filter_cong)
  have st: "constraint (states df) ss (State r)" if "set ss = State ` set df" for r
    using that by (simp add: constraint_def universes)
  have we: "constraint (weather_options df) sw (Weather_Condition r)"
    if "set sw = Weather_Condition ` set df" for r
    using that by (simp add: constraint_def universes)
  have se: "constraint (severity_levels df) sv (Severity r)" if "set sv = Severity ` set df" for r
    using that by (simp add: constraint_def universes)
  have vi: "constraint visibility_options svis (Visibility_Level r)"
    if "set svis = Visibility_Level ` set df \<or> set svis = set visibility_options" "r \<in> set df"
    for r
    using that by (auto simp: constraint_def)
  have ro: "constraint (road_options df) sr (Road_Condition r)"
    if "set sr = Road_Condition ` set df" for r
    using that by (simp add: constraint_def universes)
  show ?thesis
    unfolding filtered_df_range
  proof (intro conjI impI)
    assume "set ss = State ` set df"
    then show "Inr (filter (\<lambda>r. s \<le> Date r \<and> Date r \<le> e
            \<and> constraint (states df) ss (State r)
            \<and> constraint (weather_options df) sw (Weather_Condition r)
            \<and> constraint (severity_levels df) sv (Severity r)
            \<and> constraint visibility_options svis (Visibility_Level r)
            \<and> constraint (road_options df) sr (Road_Condition r)) df) =
        (Inr (filter (\<lambda>r. s \<le> Date r \<and> Date r \<le> e
            \<and> constraint (weather_options df) sw (Weather_Condition r)
            \<and> constraint (severity_levels df) sv (Severity r)
            \<and> constraint visibility_options svis (Visibility_Level r)
            \<and> constraint (road_options df) sr (Road_Condition r)) df) :: error + row list)"
      by (intro same) (simp add: st)
  next
    assume "set sw = Weather_Condition ` set df"
    then show "Inr (filter (\<lambda>r. s \<le> Date r \<and> Date r \<le> e
            \<and> constraint (states df) ss (State r)
            \<and> constraint (weather_options df) sw (Weather_Condition r)
            \<and> constraint (severity_levels df) sv (Severity r)
            \<and> constraint visibility_options svis (Visibility_Level r)
            \<and> constraint (road_options df) sr (Road_Condition r)) df) =
        (Inr (filter (\<lambda>r. s \<le> Date r \<and> Date r \<le> e
            \<and> constraint (states df) ss (State r)
            \<and> constraint (severity_levels df) sv (Severity r)
            \<and> constraint visibility_options svis (Visibility_Level r)
            \<and> constraint (road_options df) sr (Road_Condition r)) df) :: error + row list)"
      by (intro same) (simp add: we)
  next
    assume "set sv = Severity ` set df"
    then show "Inr (filter (\<lambda>r. s \<le> Date r \<and> Date r \<le> e
            \<and> constraint (states df) ss (State r)
            \<and> constraint (weather_options df) sw (Weather_Condition r)
            \<and> constraint (severity_levels df) sv (Severity r)
            \<and> constraint visibility_options svis (Visibility_Level r)
            \<and> constraint (road_options df) sr (Road_Condition r)) df) =
        (Inr (filter (\<lambda>r. s \<le> Date r \<and> Date r \<le> e
            \<and> constraint (states df) ss (State r)
            \<and> constraint (weather_options df) sw (Weather_Condition r)
            \<and> constraint visibility_options svis (Visibility_Level r)
            \<and> constraint (road_options df) sr (Road_Condition r)) df) :: error + row list)"
      by (intro same) (simp add: se)
  next
    assume "set svis = Visibility_Level ` set df \<or> set svis = set visibility_options"
    then show "Inr (filter (\<lambda>r. s \<le> Date r \<and> Date r \<le> e
            \<and> constraint (states df) ss (State r)
            \<and> constraint (weather_options df) sw (Weather_Condition r)
            \<and> constraint (severity_levels df) sv (Severity r)
            \<and> constraint visibility_options svis (Visibility_Level r)
            \<and> constraint (road_options df) sr (Road_Condition r)) df) =
        (Inr (filter (\<lambda>r. s \<le> Date r \<and> Date r \<le> e
            \<and> constraint (states df) ss (State r)
            \<and> constraint (weather_options df) sw (Weather_Condition r)
            \<and> constraint (severity_levels df) sv (Severity r)
            \<and> constraint (road_options df) sr (Road_Condition r)) df) :: error + row list)"
      by (intro same) (simp add: vi)
  next
    assume "set sr = Road_Condition ` set df"
    then show "Inr (filter (\<lambda>r. s \<le> Date r \<and> Date r \<le> e
            \<and> constraint (states df) ss (State r)
            \<and> constraint (weather_options df) sw (Weather_Condition r)
            \<and> constraint (severity_levels df) sv (Severity r)
            \<and> constraint visibility_options svis (Visibility_Level r)
            \<and> constraint (road_options df) sr (Road_Condition r)) df) =
        (Inr (filter (\<lambda>r. s \<le> Date r \<and> Date r \<le> e
            \<and> constraint (states df) ss (State r)
            \<and> constraint (weather_options df) sw (Weather_Condition r)
            \<and> constraint (severity_levels df) sv (Severity r)
            \<and> constraint visibility_options svis (Visibility_Level r)) df) :: error + row list)"
      by (intro same) (simp add: ro)
  qed
qed

theorem full_selection_no_constraint_witness:
  "set [''NY'', ''CA''] = State ` set example_df
   \<and> set [''Fair'', ''Rain''] = Weather_Condition ` set example_df
   \<and> set [2, 3, 4] = Severity ` set example_df
   \<and> set [''Unclear'', ''Clear''] = Visibility_Level ` set example_df
   \<and> set [''Junction'', ''Straight Road''] = Road_Condition ` set example_df
   \<and> filtered_df example_df [''NY'', ''CA''] [''Fair'', ''Rain''] [2, 3, 4] [''Unclear'', ''Clear'']
        [''Junction'', ''Straight Road''] (DateTuple [4, 9]) = Inr [example_df ! 1, example_df ! 2]"
proof -
  have h1: "set [''NY'', ''CA''] = State ` set example_df"
   and h2: "set [''Fair'', ''Rain''] = Weather_Condition ` set example_df"
   and h3: "set [2, 3, 4] = Severity ` set example_df"
   and h4: "set [''Unclear'', ''Clear''] = Visibility_Level ` set example_df"
   and h5: "set [''Junction'', ''Straight Road''] = Road_Condition ` set example_df"
    by (auto simp: example_df_def)
  have c: "constraint (weather_options example_df) [''Fair'', ''Rain''] w"
    "constraint (severity_levels example_df) [2, 3, 4] k"
    "constraint visibility_options [''Unclear'', ''Clear''] v"
    "constraint (road_options example_df) [''Junction'', ''Straight Road''] v" for v w k
    using h2 h3 h5 by (auto simp: constraint_def universes)
  note first = full_selection_no_constraint
    [of "[''NY'', ''CA'']" example_df "[''Fair'', ''Rain'']" "[2, 3, 4]" "[''Unclear'', ''Clear'']"
      "[''Junction'', ''Straight Road'']" 4 9, THEN conjunct1, THEN mp, OF h1]
  have "filtered_df example_df [''NY'', ''CA''] [''Fair'', ''Rain''] [2, 3, 4] [''Unclear'', ''Clear'']
        [''Junction'', ''Straight Road''] (DateTuple [4, 9]) = Inr [example_df ! 1, example_df ! 2]"
    unfolding first by (simp only: c simp_thms) (simp add: example_df_def)
  with h1 h2 h3 h4 h5 show ?thesis by blast
qed

text \<open>
  Claim C6. In a filter over a date range, an empty selection in a dimension whose
  universe is not empty yields no row at all: the empty selection differs from the
  universe, so the dimension is active, and no value is a member of the empty set. In
  particular an empty selection of severities yields zero rows.
\<close>

theorem empty_selection_no_rows:
  "(states df \<noteq> [] \<longrightarrow> filtered_df df [] sw sv svis sr (DateTuple [s, e]) = Inr [])
   \<and> (weather_options df \<noteq> [] \<longrightarrow> filtered_df df ss [] sv svis sr (DateTuple [s, e]) = Inr [])
   \<and> (severity_levels df \<noteq> [] \<longrightarrow> filtered_df df ss sw [] svis sr (DateTuple [s, e]) = Inr [])
   \<and> (visibility_options \<noteq> [] \<longrightarrow> filtered_df df ss sw sv [] sr (DateTuple [s, e]) = Inr [])
   \<and> (road_options df \<noteq> [] \<longrightarrow> filtered_df df ss sw sv svis [] (DateTuple [s, e]) = Inr [])"
  unfolding filtered_df_range by (simp add: constraint_empty)

theorem empty_selection_no_rows_witness:
  "states example_df \<noteq> [] \<and> weather_options example_df \<noteq> []
   \<and> severity_levels example_df \<noteq> [] \<and> visibility_options \<noteq> []
   \<and> road_options example_df \<noteq> []
   \<and> filtered_df example_df [] [''Fair'', ''Rain''] [2, 3, 4] [''Clear'', ''Unclear'']
        [''Junction'', ''Straight Road''] (DateTuple [0, 10]) = Inr []
   \<and> filtered_df example_df [''CA'', ''NY''] [] [2, 3, 4] [''Clear'', ''Unclear'']
        [''Junction'', ''Straight Road''] (DateTuple [0, 10]) = Inr []
   \<and> filtered_df example_df [''CA'', ''NY''] [''Fair'', ''Rain''] [] [''Clear'', ''Unclear'']
        [''Junction'', ''Straight Road''] (DateTuple [0, 10]) = Inr []
   \<and> filtered_df example_df [''CA'', ''NY''] [''Fair'', ''Rain''] [2, 3, 4] []
        [''Junction'', ''Straight Road''] (DateTuple [0, 10]) = Inr []
   \<and> filtered_df example_df [''CA'', ''NY''] [''Fair'', ''Rain''] [2, 3, 4] [''Clear'', ''Unclear'']
        [] (DateTuple [0, 10]) = Inr []"
proof -
  have "set (states example_df) \<noteq> {}" "set (weather_options example_df) \<noteq> {}"
    "set (severity_levels example_df) \<noteq> {}" "set visibility_options \<noteq> {}"
    "set (road_options example_df) \<noteq> {}"
    unfolding universes by (simp_all add: example_df_def)
  then have h: "states example_df \<noteq> []" "weather_options example_df \<noteq> []"
    "severity_levels example_df \<noteq> []" "visibility_options \<noteq> []" "road_options example_df \<noteq> []"
    by (simp_all only: set_empty not_False_eq_True)
  show ?thesis
    using h
      empty_selection_no_rows [of example_df "[''Fair'', ''Rain'']" "[2, 3, 4]"
        "[''Clear'', ''Unclear'']" "[''Junction'', ''Straight Road'']" 0 10 "[''CA'', ''NY'']"]
    by simp
qed

text \<open>
  Claim C10. The options of the visibility control are the fixed list Clear, Unclear, and
  not the values found in the data. So a range filter whose visibility selection is a
  strict subset of these options returns no row whose visibility level is Unknown; and on
  a table loaded from a file without the visibility column, selecting only Clear or only
  Unclear returns no row at all.
\<close>

theorem unknown_never_matches:
  "visibility_options = [''Clear'', ''Unclear'']
   \<and> (set svis \<subset> set visibility_options
        \<and> filtered_df df ss sw sv svis sr (DateTuple [s, e]) = Inr out
        \<longrightarrow> (\<forall>r \<in> set out. Visibility_Level r \<noteq> ''Unknown''))
   \<and> (''Visibility(mi)'' \<notin> set (columns tbl) \<and> load_data parse tbl = Inr df'
        \<and> (svis' = [''Clear''] \<or> svis' = [''Unclear''])
        \<longrightarrow> filtered_df df' ss sw sv svis' sr (DateTuple [s, e]) = Inr [])"
proof (intro conjI impI)
  show "visibility_options = [''Clear'', ''Unclear'']"
    by (fact visibility_options_def)
next
  assume "set svis \<subset> set visibility_options
      \<and> filtered_df df ss sw sv svis sr (DateTuple [s, e]) = Inr out"
  then show "\<forall>r \<in> set out. Visibility_Level r \<noteq> ''Unknown''"
    using unknown_excluded by blast
next
  assume h: "''Visibility(mi)'' \<notin> set (columns tbl) \<and> load_data parse tbl = Inr df'
        \<and> (svis' = [''Clear''] \<or> svis' = [''Unclear''])"
  then have active: "set svis' \<noteq> set visibility_options"
    using only_Clear_active only_Unclear_active by blast
  from h have notin: "''Unknown'' \<notin> set svis'" by auto
  have "\<not> constraint visibility_options svis' (Visibility_Level r)" if "r \<in> set df'" for r
  proof -
    from h that have "Visibility_Level r = ''Unknown''"
      using absent_visibility_all_Unknown by blast
    with active notin show ?thesis by (simp add: constraint_def)
  qed
  then show "filtered_df df' ss sw sv svis' sr (DateTuple [s, e]) = Inr []"
    unfolding filtered_df_range by (simp add: filter_empty_conv)
qed

theorem unknown_never_matches_witness:
  "set [''Unclear''] \<subset> set visibility_options
   \<and> filtered_df (example_loaded ''Unknown'' ''Junction'' # example_df) [''CA'', ''NY'']
        [''Fair'', ''Rain''] [2, 3, 4] [''Unclear''] [''Junction'', ''Straight Road'']
        (DateTuple [0, 10]) = Inr [example_df ! 1]
   \<and> Visibility_Level (example_df ! 1) \<noteq> ''Unknown''
   \<and> ''Visibility(mi)'' \<notin> set (columns example_table_no_visibility)
   \<and> load_data (\<lambda>s. NaN) example_table_no_visibility = Inr [example_loaded ''Unknown'' ''Junction'']
   \<and> filtered_df [example_loaded ''Unknown'' ''Junction''] [''CA''] [''Fair''] [2] [''Clear'']
        [''Junction''] (DateTuple [0, 10]) = Inr []"
proof -
  have a: "set [''Unclear''] \<subset> set visibility_options"
    using only_Unclear_active by (auto simp: visibility_options_def)
  have ne: "set [''Fair'', ''Rain''] = {''Fair'', ''Rain''}" "{''Unclear''} \<noteq> {''Clear'', ''Unclear''}"
    by auto
  have b: "filtered_df (example_loaded ''Unknown'' ''Junction'' # example_df) [''CA'', ''NY'']
        [''Fair'', ''Rain''] [2, 3, 4] [''Unclear''] [''Junction'', ''Straight Road'']
        (DateTuple [0, 10]) = Inr [example_df ! 1]"
    unfolding filtered_df_range
    by (simp add: constraint_def universes example_df_def example_loaded_def ne)
  have c: "''Visibility(mi)'' \<notin> set (columns example_table_no_visibility)"
    by (simp add: example_table_no_visibility_def required_columns_def)
  note inst = unknown_never_matches
    [where svis = "[''Unclear'']" and df = "example_loaded ''Unknown'' ''Junction'' # example_df"
      and ss = "[''CA'', ''NY'']" and sw = "[''Fair'', ''Rain'']" and sv = "[2, 3, 4]"
      and sr = "[''Junction'', ''Straight Road'']" and s = 0 and e = 10
      and out = "[example_df ! 1]"]
  have d: "Visibility_Level (example_df ! 1) \<noteq> ''Unknown''"
    using inst a b by simp
  have e: "filtered_df [example_loaded ''Unknown'' ''Junction''] [''CA''] [''Fair''] [2] [''Clear'']
        [''Junction''] (DateTuple [0, 10]) = Inr []"
    using c load_example_table_no_visibility
      unknown_never_matches
        [where tbl = example_table_no_visibility and parse = "\<lambda>s. NaN"
          and df' = "[example_loaded ''Unknown'' ''Junction'']" and svis' = "[''Clear'']"
          and ss = "[''CA'']" and sw = "[''Fair'']" and sv = "[2]" and sr = "[''Junction'']"
          and s = 0 and e = 10]
    by simp
  from a b c d e load_example_table_no_visibility show ?thesis by blast
qed

section \<open>Properties of the derived columns\<close>

text \<open>
  Claim C4. In every loaded table a row's visibility level is Unknown exactly when the file
  has no visibility column. When the file has the column, the level of a kept row is Clear
  when the numerically coerced value is a number that is at least 5 (or plus infinity), and
  Unclear otherwise: below 5, null, or a text that is no number all give Unclear, never
  Unknown. The coercion leaves a float as it is, reads an integer as that number and a
  missing cell as null.
\<close>

theorem visibility_level_rule:
  assumes "load_data parse tbl = Inr df"
  shows "(\<forall>r \<in> set df. Visibility_Level r = ''Unknown'' \<longleftrightarrow> ''Visibility(mi)'' \<notin> set (columns tbl))
    \<and> (''Visibility(mi)'' \<in> set (columns tbl) \<longrightarrow>
         map Visibility_Level df =
           map (\<lambda>r. case to_numeric parse (row_get r ''Visibility(mi)'') of
                      Fin x \<Rightarrow> if 5 \<le> x then ''Clear'' else ''Unclear''
                    | PosInf \<Rightarrow> ''Clear''
                    | NegInf \<Rightarrow> ''Unclear''
                    | NaN \<Rightarrow> ''Unclear'')
             (filter complete (rows tbl)))
    \<and> (\<forall>x. visibility_lambda (Fin x) = (if 5 \<le> x then ''Clear'' else ''Unclear''))
    \<and> visibility_lambda NaN = ''Unclear''
    \<and> (\<forall>x. to_numeric parse (CFloat x) = x)
    \<and> (\<forall>n. to_numeric parse (CInt n) = Fin (of_int n))
    \<and> to_numeric parse CNone = NaN
    \<and> (\<forall>b. visibility_lambda (to_numeric parse (CBool b)) = ''Unclear'')
    \<and> (\<forall>s. parse s = NaN \<longrightarrow> visibility_lambda (to_numeric parse (CStr s)) = ''Unclear'')"
proof -
  note rows = load_data_rows [OF assms]
  have "r \<in> set df \<Longrightarrow>
      Visibility_Level r = ''Unknown'' \<longleftrightarrow> ''Visibility(mi)'' \<notin> set (columns tbl)" for r
    by (subst (asm) rows) (auto simp: visibility_lambda_not_Unknown)
  then have a: "\<forall>r \<in> set df.
      Visibility_Level r = ''Unknown'' \<longleftrightarrow> ''Visibility(mi)'' \<notin> set (columns tbl)"
    by blast
  have level: "visibility_lambda v =
      (case v of Fin x \<Rightarrow> if 5 \<le> x then ''Clear'' else ''Unclear''
       | PosInf \<Rightarrow> ''Clear'' | NegInf \<Rightarrow> ''Unclear'' | NaN \<Rightarrow> ''Unclear'')" for v
    by (cases v) (simp_all add: visibility_lambda_def)
  have b: "''Visibility(mi)'' \<in> set (columns tbl) \<longrightarrow>
         map Visibility_Level df =
           map (\<lambda>r. case to_numeric parse (row_get r ''Visibility(mi)'') of
                      Fin x \<Rightarrow> if 5 \<le> x then ''Clear'' else ''Unclear''
                    | PosInf \<Rightarrow> ''Clear''
                    | NegInf \<Rightarrow> ''Unclear''
                    | NaN \<Rightarrow> ''Unclear'')
             (filter complete (rows tbl))"
    by (subst rows) (simp add: comp_def level)
  have c: "\<forall>x. visibility_lambda (Fin x) = (if 5 \<le> x then ''Clear'' else ''Unclear'')"
    by (simp add: visibility_lambda_def)
  have d: "visibility_lambda NaN = ''Unclear''"
    by (simp add: visibility_lambda_def)
  have e: "\<forall>s. parse s = NaN \<longrightarrow> visibility_lambda (to_numeric parse (CStr s)) = ''Unclear''"
    by (simp add: visibility_lambda_def)
  have f: "\<forall>b. visibility_lambda (to_numeric parse (CBool b)) = ''Unclear''"
    by (simp add: visibility_lambda_def)
  from a b c d e f show ?thesis by simp
qed

theorem visibility_level_rule_witness:
  "load_data (\<lambda>s. NaN) example_visibility_table =
     Inr (map (\<lambda>v. example_loaded v ''Straight Road'')
       [''Clear'', ''Clear'', ''Unclear'', ''Unclear'', ''Clear'', ''Unclear'', ''Unclear''])
   \<and> ''Visibility(mi)'' \<in> set (columns example_visibility_table)
   \<and> map (\<lambda>r. to_numeric (\<lambda>s. NaN) (row_get r ''Visibility(mi)''))
        (filter complete (rows example_visibility_table))
      = [Fin 10, Fin 5, Fin (49 / 10), Fin 4, Fin 5, NaN, NaN]
   \<and> map (\<lambda>r. case to_numeric (\<lambda>s. NaN) (row_get r ''Visibility(mi)'') of
                 Fin x \<Rightarrow> if 5 \<le> x then ''Clear'' else ''Unclear''
               | PosInf \<Rightarrow> ''Clear''
               | NegInf \<Rightarrow> ''Unclear''
               | NaN \<Rightarrow> ''Unclear'')
        (filter complete (rows example_visibility_table))
      = [''Clear'', ''Clear'', ''Unclear'', ''Unclear'', ''Clear'', ''Unclear'', ''Unclear'']
   \<and> ''Unknown'' \<notin> Visibility_Level ` set (map (\<lambda>v. example_loaded v ''Straight Road'')
       [''Clear'', ''Clear'', ''Unclear'', ''Unclear'', ''Clear'', ''Unclear'', ''Unclear''])"
proof -
  have c: "''Visibility(mi)'' \<in> set (columns example_visibility_table)"
    by (simp add: example_visibility_table_def)
  have n: "map (\<lambda>r. to_numeric (\<lambda>s. NaN) (row_get r ''Visibility(mi)''))
        (filter complete (rows example_visibility_table))
      = [Fin 10, Fin 5, Fin (49 / 10), Fin 4, Fin 5, NaN, NaN]"
    by (simp add: example_visibility_table_def example_csv_row_def complete_def row_get_def)
  have l: "map Visibility_Level (map (\<lambda>v. example_loaded v ''Straight Road'')
       [''Clear'', ''Clear'', ''Unclear'', ''Unclear'', ''Clear'', ''Unclear'', ''Unclear''])
      = [''Clear'', ''Clear'', ''Unclear'', ''Unclear'', ''Clear'', ''Unclear'', ''Unclear'']"
    by (simp add: example_loaded_def)
  note inst = visibility_level_rule [OF load_example_visibility_table, THEN conjunct2,
      THEN conjunct1, THEN mp, OF c, unfolded l, symmetric]
  have u: "''Unknown'' \<notin> Visibility_Level ` set (map (\<lambda>v. example_loaded v ''Straight Road'')
       [''Clear'', ''Clear'', ''Unclear'', ''Unclear'', ''Clear'', ''Unclear'', ''Unclear''])"
    by (simp add: example_loaded_def)
  from load_example_visibility_table c n inst u show ?thesis by (intro conjI)
qed

text \<open>
  Claim C3, as amended. The road condition of a row is the first of Junction, Crossing,
  Roundabout, Bump whose column the file has and whose cell compares equal to \<^verbatim>\<open>True\<close>,
  and Straight Road when there is none; it is always one of these five values. A cell
  compares equal to \<^verbatim>\<open>True\<close> when it is the boolean true or the number one, as an integer
  or as a float; a string never does. A row with Junction and Crossing both true yields
  Junction.
\<close>

theorem road_condition_first_match:
  "road_condition cols r =
     (case find (\<lambda>f. f \<in> set cols \<and> eq_True (row_get r f))
             [''Junction'', ''Crossing'', ''Roundabout'', ''Bump''] of
        Some f \<Rightarrow> f | None \<Rightarrow> ''Straight Road'')
   \<and> (eq_True v \<longleftrightarrow> v = CBool True \<or> v = CInt 1 \<or> v = CFloat (Fin 1))
   \<and> road_condition cols r \<in> {''Junction'', ''Crossing'', ''Roundabout'', ''Bump'', ''Straight Road''}
   \<and> (''Junction'' \<in> set cols \<and> row_get r ''Junction'' = CBool True
        \<and> row_get r ''Crossing'' = CBool True \<longrightarrow> road_condition cols r = ''Junction'')"
proof -
  have a: "road_condition cols r =
     (case find (\<lambda>f. f \<in> set cols \<and> eq_True (row_get r f))
             [''Junction'', ''Crossing'', ''Roundabout'', ''Bump''] of
        Some f \<Rightarrow> f | None \<Rightarrow> ''Straight Road'')"
    by (simp add: road_condition_def)
  have b: "eq_True v \<longleftrightarrow> v = CBool True \<or> v = CInt 1 \<or> v = CFloat (Fin 1)"
    by (cases v rule: eq_True.cases) auto
  have c: "road_condition cols r
      \<in> {''Junction'', ''Crossing'', ''Roundabout'', ''Bump'', ''Straight Road''}"
    by (simp add: road_condition_def)
  have d: "''Junction'' \<in> set cols \<and> row_get r ''Junction'' = CBool True
        \<and> row_get r ''Crossing'' = CBool True \<longrightarrow> road_condition cols r = ''Junction''"
    by (simp add: road_condition_def)
  from a b c d show ?thesis by blast
qed

theorem road_condition_first_match_witness:
  "road_condition (columns example_table) (rows example_table ! 0) = ''Junction''
   \<and> road_condition (columns example_table) (rows example_table ! 1) = ''Straight Road''
   \<and> road_condition (columns example_table) (rows example_table ! 2) = ''Junction''"
  using road_condition_first_match [of "columns example_table" "rows example_table ! 0"]
    road_condition_first_match [of "columns example_table" "rows example_table ! 1"]
    road_condition_first_match [of "columns example_table" "rows example_table ! 2"]
  by (simp add: example_table_def example_csv_row_def row_get_def required_columns_def)

text \<open>
  Claim C3 as the specification states it fails on a row whose Junction cell is the float
  1.0: the script answers Junction, since \<^verbatim>\<open>1.0 == True\<close> holds in Python, where the
  specification's rule, which counts only the boolean true, answers Straight Road.
\<close>

theorem road_condition_counterexample:
  "road_condition [''Junction''] (example_csv_row [''Junction'' \<mapsto> CFloat (Fin 1)]) = ''Junction''
   \<and> spec_road_condition [''Junction''] (example_csv_row [''Junction'' \<mapsto> CFloat (Fin 1)])
       = ''Straight Road''"
  by (simp add: road_condition_def spec_road_condition_def spec_flag_set_def row_get_def
      example_csv_row_def)

section \<open>Properties of the aggregation views\<close>

text \<open>
  Claim C9. The severity-bucket view of a table gives the number of rows as the total and
  the number of rows of severity 4, 3 and 2 as fatal, severe and slight; severity 1 has no
  bucket. A table whose severities are 4, 4, 3, 2, 2, 2, 1 gives total 7, fatal 2,
  severe 1 and slight 3.
\<close>

theorem kpis_counts:
  "total (kpis df) = length df
   \<and> fatal (kpis df) = length (filter (\<lambda>r. Severity r = 4) df)
   \<and> severe (kpis df) = length (filter (\<lambda>r. Severity r = 3) df)
   \<and> slight (kpis df) = length (filter (\<lambda>r. Severity r = 2) df)
   \<and> (map Severity df = [4, 4, 3, 2, 2, 2, 1] \<longrightarrow>
        kpis df = \<lparr>total = 7, fatal = 2, severe = 1, slight = 3\<rparr>)"
proof -
  have count: "severity_eq_count df k = count_list (map Severity df) k" for k
    unfolding severity_eq_count_filter by (induction df) simp_all
  have "kpis df = \<lparr>total = 7, fatal = 2, severe = 1, slight = 3\<rparr>"
    if m: "map Severity df = [4, 4, 3, 2, 2, 2, 1]"
  proof -
    have "length df = length (map Severity df)" by simp
    then have "length df = 7" unfolding m by simp
    then show ?thesis by (simp add: kpis_def count m)
  qed
  then show ?thesis by (simp add: kpis_def severity_eq_count_filter)
qed

theorem kpis_counts_witness:
  "map Severity (severity_rows [4, 4, 3, 2, 2, 2, 1]) = [4, 4, 3, 2, 2, 2, 1]
   \<and> kpis (severity_rows [4, 4, 3, 2, 2, 2, 1]) = \<lparr>total = 7, fatal = 2, severe = 1, slight = 3\<rparr>"
proof -
  have h: "map Severity (severity_rows [4, 4, 3, 2, 2, 2, 1]) = [4, 4, 3, 2, 2, 2, 1]"
    by (simp add: severity_rows_def)
  with kpis_counts [of "severity_rows [4, 4, 3, 2, 2, 2, 1]"] show ?thesis by blast
qed

text \<open>
  Claim C7. The hourly aggregation of a table has one pair (hour, count) for every hour
  that occurs in the table and none for the others, the count being the number of rows
  with that hour, in ascending order of the hours. Rows at hours 0, 0, 5, 5, 5, 23 give
  exactly the three buckets (0, 2), (5, 3), (23, 1), in this order.
\<close>

theorem hourly_counts_buckets:
  "hourly_counts df =
     map (\<lambda>h. (h, length (filter (\<lambda>r. Hour r = h) df))) (sorted_list_of_set (Hour ` set df))
   \<and> sorted (map fst (hourly_counts df)) \<and> distinct (map fst (hourly_counts df))
   \<and> set (map fst (hourly_counts df)) = Hour ` set df
   \<and> (\<forall>(h, c) \<in> set (hourly_counts df). 0 < c)
   \<and> (map Hour df = [0, 0, 5, 5, 5, 23] \<longrightarrow> hourly_counts df = [(0, 2), (5, 3), (23, 1)])"
proof -
  have eq: "hourly_counts df =
     map (\<lambda>h. (h, length (filter (\<lambda>r. Hour r = h) df))) (sorted_list_of_set (Hour ` set df))"
    by (simp add: hourly_counts_eq count_rows)
  have fst: "map fst (hourly_counts df) = sorted_list_of_set (Hour ` set df)"
    unfolding eq by (simp add: comp_def)
  have pos: "\<forall>(h, c) \<in> set (hourly_counts df). 0 < c"
    unfolding hourly_counts_eq by (auto simp: count_list_pos)
  have ex: "hourly_counts df = [(0, 2), (5, 3), (23, 1)]" if m: "map Hour df = [0, 0, 5, 5, 5, 23]"
  proof -
    have "Hour ` set df = set (map Hour df)" by simp
    then have s: "Hour ` set df = set [0, 0, 5, 5, 5, 23]" unfolding m .
    have "sorted_list_of_set (set [0, 0, 5, 5, 5, 23 :: nat]) = [0, 5, 23]"
      unfolding sorted_list_of_set_sort_remdups by simp
    then show ?thesis unfolding hourly_counts_eq s m by simp
  qed
  show ?thesis using eq pos ex unfolding fst by simp
qed

theorem hourly_counts_buckets_witness:
  "map Hour (hour_rows [0, 0, 5, 5, 5, 23]) = [0, 0, 5, 5, 5, 23]
   \<and> hourly_counts (hour_rows [0, 0, 5, 5, 5, 23]) = [(0, 2), (5, 3), (23, 1)]"
proof -
  have h: "map Hour (hour_rows [0, 0, 5, 5, 5, 23]) = [0, 0, 5, 5, 5, 23]"
    by (simp add: hour_rows_def)
  with hourly_counts_buckets [of "hour_rows [0, 0, 5, 5, 5, 23]"] show ?thesis by blast
qed

text \<open>
  Claim C8. The weather aggregation returns at most five pairs (weather, count): as many
  as there are distinct weather values, up to five, each value once with the number of its
  rows, in descending order of the counts, and no value left out has more rows than a
  value returned. For seven distinct values with 50, 40, 30, 20, 10, 5 and 1 rows it
  returns the five values with 50, 40, 30, 20 and 10 rows, in this order.
\<close>

theorem weather_counts_top5:
  "length (weather_counts df) = min 5 (card (Weather_Condition ` set df))
   \<and> distinct (map fst (weather_counts df))
   \<and> (\<forall>(w, c) \<in> set (weather_counts df).
         c = length (filter (\<lambda>r. Weather_Condition r = w) df) \<and> 0 < c)
   \<and> sorted_wrt (\<lambda>p q. snd q \<le> snd p) (weather_counts df)
   \<and> (\<forall>w \<in> Weather_Condition ` set df - fst ` set (weather_counts df).
        \<forall>(w', c') \<in> set (weather_counts df).
          length (filter (\<lambda>r. Weather_Condition r = w) df) \<le> c')
   \<and> (distinct ws \<and> Weather_Condition ` set df = set ws
        \<and> map (\<lambda>w. length (filter (\<lambda>r. Weather_Condition r = w) df)) ws
            = [50, 40, 30, 20, 10, 5, 1]
        \<longrightarrow> weather_counts df = zip (take 5 ws) [50, 40, 30, 20, 10])"
proof -
  let ?col = "map Weather_Condition df"
  let ?L = "value_counts ?col"
  have len: "length (weather_counts df) = min 5 (card (Weather_Condition ` set df))"
    by (simp add: weather_counts_def length_value_counts min.commute)
  have dist: "distinct (map fst (weather_counts df))"
    unfolding weather_counts_def take_map [symmetric]
    by (rule distinct_take) (rule distinct_map_fst_value_counts)
  have elems: "\<forall>(w, c) \<in> set (weather_counts df).
         c = length (filter (\<lambda>r. Weather_Condition r = w) df) \<and> 0 < c"
  proof -
    have "c = length (filter (\<lambda>r. Weather_Condition r = w) df) \<and> 0 < c"
      if "(w, c) \<in> set (weather_counts df)" for w c
    proof -
      from that have "(w, c) \<in> set ?L"
        unfolding weather_counts_def by (rule in_set_takeD)
      then show ?thesis by (auto simp: set_value_counts count_rows count_list_pos)
    qed
    then show ?thesis by blast
  qed
  have sorted: "sorted_wrt (\<lambda>p q. snd q \<le> snd p) (weather_counts df)"
    unfolding weather_counts_def by (rule sorted_wrt_take) (rule sorted_value_counts)
  have top: "\<forall>w \<in> Weather_Condition ` set df - fst ` set (weather_counts df).
        \<forall>(w', c') \<in> set (weather_counts df).
          length (filter (\<lambda>r. Weather_Condition r = w) df) \<le> c'"
  proof -
    have "length (filter (\<lambda>r. Weather_Condition r = w) df) \<le> c'"
      if w: "w \<in> Weather_Condition ` set df" "w \<notin> fst ` set (weather_counts df)"
        and p: "(w', c') \<in> set (weather_counts df)" for w w' c'
    proof -
      from w(1) have in_L: "(w, count_list ?col w) \<in> set ?L"
        by (simp add: set_value_counts)
      from w(2) have out: "(w, count_list ?col w) \<notin> set (take 5 ?L)"
        unfolding weather_counts_def by force
      from p have "(w', c') \<in> set (take 5 ?L)" by (simp add: weather_counts_def)
      from top_of_sorted [OF sorted_value_counts this in_L out]
      show ?thesis by (simp add: count_rows)
    qed
    then show ?thesis by blast
  qed
  have ex: "weather_counts df = zip (take 5 ws) [50, 40, 30, 20, 10]"
    if h: "distinct ws \<and> Weather_Condition ` set df = set ws
        \<and> map (\<lambda>w. length (filter (\<lambda>r. Weather_Condition r = w) df)) ws
            = [50, 40, 30, 20, 10, 5, 1]"
  proof -
    from h have c: "map (count_list ?col) ws = [50, 40, 30, 20, 10, 5, 1]"
      by (simp add: count_rows)
    have "?L = zip ws [50, 40, 30, 20, 10, 5, 1]"
      by (rule value_counts_frequencies [OF _ _ c]) (use h in simp_all)
    then show ?thesis by (simp add: weather_counts_def take_zip)
  qed
  from len dist elems sorted top ex show ?thesis by blast
qed

theorem weather_counts_top5_witness:
  "distinct [''Fair'', ''Rain'', ''Snow'', ''Fog'', ''Haze'', ''Hail'', ''Dust'']
   \<and> Weather_Condition ` set (weather_rows [(''Fair'', 50), (''Rain'', 40), (''Snow'', 30),
        (''Fog'', 20), (''Haze'', 10), (''Hail'', 5), (''Dust'', 1)])
      = set [''Fair'', ''Rain'', ''Snow'', ''Fog'', ''Haze'', ''Hail'', ''Dust'']
   \<and> weather_counts (weather_rows [(''Fair'', 50), (''Rain'', 40), (''Snow'', 30),
        (''Fog'', 20), (''Haze'', 10), (''Hail'', 5), (''Dust'', 1)])
      = [(''Fair'', 50), (''Rain'', 40), (''Snow'', 30), (''Fog'', 20), (''Haze'', 10)]"
proof -
  let ?df = "weather_rows [(''Fair'', 50), (''Rain'', 40), (''Snow'', 30),
        (''Fog'', 20), (''Haze'', 10), (''Hail'', 5), (''Dust'', 1)]"
  let ?ws = "[''Fair'', ''Rain'', ''Snow'', ''Fog'', ''Haze'', ''Hail'', ''Dust'']"
  have d: "distinct ?ws" by simp
  have s: "Weather_Condition ` set ?df = set ?ws"
    unfolding set_weather_rows by simp
  have c: "map (\<lambda>w. length (filter (\<lambda>r. Weather_Condition r = w) ?df)) ?ws
      = [50, 40, 30, 20, 10, 5, 1]"
    unfolding count_weather_rows by simp
  note inst = weather_counts_top5 [of ?df ?ws, THEN conjunct2, THEN conjunct2, THEN conjunct2,
      THEN conjunct2, THEN conjunct2, THEN mp, OF conjI [OF d conjI [OF s c]]]
  have "weather_counts ?df
      = [(''Fair'', 50), (''Rain'', 40), (''Snow'', 30), (''Fog'', 20), (''Haze'', 10)]"
    unfolding inst by simp
  with d s show ?thesis by (intro conjI)
qed

end
